theory Spec2Isabelle
  imports Main
begin

section \<open>JavaScript values\<close>

text \<open>
  The program is written over plain JavaScript values: object literals, arrays, strings,
  booleans, \<open>null\<close> and \<open>undefined\<close>. An object is an association list of its own
  properties in insertion order. A string is the list of the bytes of its UTF-8 encoding.
  Of a number only whether it is zero is ever consulted, and the integer-valued ones
  stand for all of them.
\<close>

datatype jsval =
    JUndefined
  | JNull
  | JBool bool
  | JNum int
  | JStr string
  | JArr "jsval list"
  | JObj "(string \<times> jsval) list"

text \<open>
  A runtime \<open>TypeError\<close> is kept by its cause; the wording of its message is the
  engine's. An \<open>Error\<close> carries its message.
\<close>

datatype fault =
    ReadProperty jsval string
  | DestructureProperty jsval string
  | NotAFunction string

datatype error =
    Error string
  | TypeError fault

text \<open>ToBoolean.\<close>

fun truthy :: "jsval \<Rightarrow> bool" where
  "truthy JUndefined = False"
| "truthy JNull = False"
| "truthy (JBool b) = b"
| "truthy (JNum n) = (n \<noteq> 0)"
| "truthy (JStr s) = (s \<noteq> [])"
| "truthy (JArr xs) = True"
| "truthy (JObj kvs) = True"

text \<open>The operators \<open>a || b\<close> and \<open>a ?? b\<close>, and a parameter default \<open>(x = d)\<close>.\<close>

definition js_or :: "jsval \<Rightarrow> jsval \<Rightarrow> jsval" where
  "js_or a b = (if truthy a then a else b)"

definition js_nullish :: "jsval \<Rightarrow> jsval \<Rightarrow> jsval" where
  "js_nullish a b = (if a = JUndefined \<or> a = JNull then b else a)"

definition js_default :: "jsval \<Rightarrow> jsval \<Rightarrow> jsval" where
  "js_default x d = (if x = JUndefined then d else x)"

text \<open>
  Reading a property \<open>v.k\<close> of a data value: the own property of an object, \<open>undefined\<close>
  where there is none, and a \<open>TypeError\<close> on \<open>undefined\<close> and \<open>null\<close>. (None of the
  names this program reads is a property of a prototype.)
\<close>

fun own_prop :: "jsval \<Rightarrow> string \<Rightarrow> jsval" where
  "own_prop (JObj kvs) k = (case map_of kvs k of Some v \<Rightarrow> v | None \<Rightarrow> JUndefined)"
| "own_prop v k = JUndefined"

definition get_prop :: "jsval \<Rightarrow> string \<Rightarrow> error + jsval" where
  "get_prop v k =
     (if v = JUndefined \<or> v = JNull then Inl (TypeError (ReadProperty v k))
      else Inr (own_prop v k))"

text \<open>Sequencing of steps that may throw.\<close>

definition bindE :: "error + 'a \<Rightarrow> ('a \<Rightarrow> error + 'b) \<Rightarrow> error + 'b" where
  "bindE m f = (case m of Inl e \<Rightarrow> Inl e | Inr x \<Rightarrow> f x)"

fun mapE :: "('a \<Rightarrow> error + 'b) \<Rightarrow> 'a list \<Rightarrow> error + 'b list" where
  "mapE f [] = Inr []"
| "mapE f (x # xs) =
     (case f x of
        Inl e \<Rightarrow> Inl e
      | Inr y \<Rightarrow> (case mapE f xs of Inl e \<Rightarrow> Inl e | Inr ys \<Rightarrow> Inr (y # ys)))"

text \<open>\<open>v.map(f)\<close>: defined on arrays; any other value has no callable \<open>map\<close>.\<close>

definition array_map :: "(jsval \<Rightarrow> error + jsval) \<Rightarrow> jsval \<Rightarrow> error + jsval" where
  "array_map f v =
     (case v of
        JArr xs \<Rightarrow> bindE (mapE f xs) (\<lambda>ys. Inr (JArr ys))
      | JUndefined \<Rightarrow> Inl (TypeError (ReadProperty v ''map''))
      | JNull \<Rightarrow> Inl (TypeError (ReadProperty v ''map''))
      | _ \<Rightarrow> Inl (TypeError (NotAFunction ''map'')))"

section \<open>Normalization of a task record\<close>

text \<open>tasks-api.js, \<open>formatTask\<close>.\<close>

definition formatTask :: "jsval \<Rightarrow> error + jsval" where
  "formatTask t =
     bindE (get_prop t ''id'') (\<lambda>tid.
     bindE (get_prop t ''title'') (\<lambda>title.
     bindE (get_prop t ''notes'') (\<lambda>notes.
     bindE (get_prop t ''status'') (\<lambda>status.
     bindE (get_prop t ''due'') (\<lambda>due.
     bindE (get_prop t ''completed'') (\<lambda>completed.
     bindE (get_prop t ''parent'') (\<lambda>parent.
     bindE (get_prop t ''position'') (\<lambda>position.
     bindE (get_prop t ''updated'') (\<lambda>updated.
     bindE (get_prop t ''selfLink'') (\<lambda>selfLink.
       Inr (JObj
         [(''id'', tid),
          (''title'', js_or title (JStr [])),
          (''notes'', js_or notes (JStr [])),
          (''status'', status),
          (''due'', js_or due JNull),
          (''completed'', js_or completed JNull),
          (''parent'', js_or parent JNull),
          (''position'', js_or position JNull),
          (''updated'', updated),
          (''selfLink'', selfLink)])))))))))))"

section \<open>The data client\<close>

text \<open>
  What a call depends on beyond its arguments: the two local files, the remote task
  service, the clock, and two functions of the engine, which are taken as they are: its
  wording of a \<open>TypeError\<close> and its \<open>JSON.stringify\<close>.
\<close>

datatype api_method =
    Tasklists_list
  | Tasks_list
  | Tasks_get
  | Tasks_insert
  | Tasks_patch
  | Tasks_delete
  | Tasks_move

record request =
  api_method :: api_method
  params :: jsval

record client =
  client_id :: jsval
  client_secret :: jsval
  credentials :: jsval

text \<open>
  \<open>creds_exists\<close> is \<open>existsSync(CREDS_PATH)\<close> and \<open>creds_read\<close> is
  \<open>JSON.parse(readFileSync(CREDS_PATH, "utf-8"))\<close>, a value or the error thrown; the same
  for the tokens. \<open>service\<close> answers one request made through a client with
  \<open>res.data\<close>, or throws. \<open>now\<close> is \<open>new Date().toISOString()\<close>.
  \<open>json_stringify v\<close> is \<open>JSON.stringify(v, null, 2)\<close>, which does not throw on
  data values.
\<close>

record world =
  creds_exists :: bool
  creds_read :: "error + jsval"
  tokens_exists :: bool
  tokens_read :: "error + jsval"
  service :: "client \<Rightarrow> request \<Rightarrow> error + jsval"
  now :: string
  type_error_message :: "fault \<Rightarrow> string"
  json_stringify :: "jsval \<Rightarrow> jsval"

text \<open>
  The result of an operation together with the requests it issued to the remote service,
  in order.
\<close>

type_synonym 'a outcome = "(error + 'a) \<times> request list"

definition thenO :: "error + 'a \<Rightarrow> ('a \<Rightarrow> 'b outcome) \<Rightarrow> 'b outcome" where
  "thenO m f = (case m of Inl e \<Rightarrow> (Inl e, []) | Inr x \<Rightarrow> f x)"

text \<open>\<open>const res = await api.m(params); return k(res.data)\<close>.\<close>

definition invoke ::
  "world \<Rightarrow> client \<Rightarrow> api_method \<Rightarrow> jsval \<Rightarrow> (jsval \<Rightarrow> error + jsval) \<Rightarrow> jsval outcome" where
  "invoke w api m ps k =
     (let rq = \<lparr>api_method = m, params = ps\<rparr>
      in case service w api rq of
           Inl e \<Rightarrow> (Inl e, [rq])
         | Inr d \<Rightarrow> (k d, [rq]))"

text \<open>The character U+2014 of the two messages, in UTF-8.\<close>

definition em_dash :: string where
  "em_dash = [CHR 0xE2, CHR 0x80, CHR 0x94]"

definition missing_credentials :: string where
  "missing_credentials = ''Missing .credentials.json '' @ em_dash @ '' run: node src/auth.js''"

definition missing_tokens :: string where
  "missing_tokens = ''Missing .tokens.json '' @ em_dash @ '' run: node src/auth.js''"

text \<open>
  \<open>const {client_id, client_secret} = v\<close>: throws on \<open>undefined\<close> and \<open>null\<close>.
\<close>

definition destructure_client :: "jsval \<Rightarrow> error + jsval \<times> jsval" where
  "destructure_client v =
     (if v = JUndefined \<or> v = JNull then Inl (TypeError (DestructureProperty v ''client_id''))
      else Inr (own_prop v ''client_id'', own_prop v ''client_secret''))"

text \<open>
  tasks-api.js, \<open>buildClient\<close>. The handler that saves refreshed tokens is registered
  here and run by the library; it is not part of a call's result.
\<close>

definition buildClient :: "world \<Rightarrow> error + client" where
  "buildClient w =
     (if \<not> creds_exists w then Inl (Error missing_credentials)
      else if \<not> tokens_exists w then Inl (Error missing_tokens)
      else
        bindE (creds_read w) (\<lambda>creds.
        bindE (get_prop creds ''installed'') (\<lambda>installed.
        bindE (if truthy installed then Inr installed else get_prop creds ''web'') (\<lambda>sel.
        bindE (destructure_client sel) (\<lambda>(cid, secret).
        bindE (tokens_read w) (\<lambda>tokens.
          Inr \<lparr>client_id = cid, client_secret = secret, credentials = tokens\<rparr>))))))"

text \<open>tasks-api.js, \<open>listTaskLists\<close>.\<close>

definition formatTaskList :: "jsval \<Rightarrow> error + jsval" where
  "formatTaskList l =
     bindE (get_prop l ''id'') (\<lambda>lid.
     bindE (get_prop l ''title'') (\<lambda>title.
     bindE (get_prop l ''updated'') (\<lambda>updated.
       Inr (JObj [(''id'', lid), (''title'', title), (''updated'', updated)]))))"

definition listTaskLists :: "world \<Rightarrow> jsval outcome" where
  "listTaskLists w =
     thenO (buildClient w) (\<lambda>api.
       invoke w api Tasklists_list (JObj [(''maxResults'', JNum 100)]) (\<lambda>d.
         bindE (get_prop d ''items'') (\<lambda>items.
           array_map formatTaskList (js_or items (JArr [])))))"

text \<open>tasks-api.js, \<open>listTasks\<close>.\<close>

definition listTasks :: "world \<Rightarrow> jsval \<Rightarrow> jsval \<Rightarrow> jsval outcome" where
  "listTasks w tasklistId0 opts0 =
     (let tasklistId = js_default tasklistId0 (JStr ''@default'');
          opts = js_default opts0 (JObj [])
      in thenO (buildClient w) (\<lambda>api.
         thenO (get_prop opts ''showCompleted'') (\<lambda>showCompleted.
         thenO (get_prop opts ''showHidden'') (\<lambda>showHidden.
         thenO (get_prop opts ''dueMin'') (\<lambda>dueMin.
         thenO (get_prop opts ''dueMax'') (\<lambda>dueMax.
           invoke w api Tasks_list
             (JObj
               [(''tasklist'', tasklistId),
                (''maxResults'', JNum 100),
                (''showCompleted'', js_nullish showCompleted (JBool False)),
                (''showHidden'', js_nullish showHidden (JBool False)),
                (''dueMin'', dueMin),
                (''dueMax'', dueMax)])
             (\<lambda>d. bindE (get_prop d ''items'') (\<lambda>items.
                    array_map formatTask (js_or items (JArr []))))))))))"

text \<open>tasks-api.js, \<open>getTask\<close>.\<close>

definition getTask :: "world \<Rightarrow> jsval \<Rightarrow> jsval \<Rightarrow> jsval outcome" where
  "getTask w tasklistId taskId =
     thenO (buildClient w) (\<lambda>api.
       invoke w api Tasks_get
         (JObj [(''tasklist'', tasklistId), (''task'', taskId)])
         formatTask)"

text \<open>tasks-api.js, \<open>createTask\<close>.\<close>

definition createTask :: "world \<Rightarrow> jsval \<Rightarrow> jsval \<Rightarrow> jsval outcome" where
  "createTask w tasklistId0 task =
     (let tasklistId = js_default tasklistId0 (JStr ''@default'')
      in thenO (buildClient w) (\<lambda>api.
         thenO (get_prop task ''title'') (\<lambda>title.
         thenO (get_prop task ''notes'') (\<lambda>notes.
         thenO (get_prop task ''due'') (\<lambda>due.
         thenO (get_prop task ''parent'') (\<lambda>parent.
           (let body = JObj
                  [(''title'', title),
                   (''notes'', notes),
                   (''due'', due),
                   (''status'', JStr ''needsAction'')];
                ps = [(''tasklist'', tasklistId), (''requestBody'', body)];
                ps' = (if truthy parent then ps @ [(''parent'', parent)] else ps)
            in invoke w api Tasks_insert (JObj ps') formatTask)))))))"

text \<open>tasks-api.js, \<open>updateTask\<close>.\<close>

definition updateTask :: "world \<Rightarrow> jsval \<Rightarrow> jsval \<Rightarrow> jsval \<Rightarrow> jsval outcome" where
  "updateTask w tasklistId taskId updates =
     thenO (buildClient w) (\<lambda>api.
     thenO (get_prop updates ''title'') (\<lambda>title.
     thenO (get_prop updates ''notes'') (\<lambda>notes.
     thenO (get_prop updates ''due'') (\<lambda>due.
     thenO (get_prop updates ''status'') (\<lambda>status.
       (let body =
              (if title \<noteq> JUndefined then [(''title'', title)] else []) @
              (if notes \<noteq> JUndefined then [(''notes'', notes)] else []) @
              (if due \<noteq> JUndefined then [(''due'', due)] else []) @
              (if status \<noteq> JUndefined then [(''status'', status)] else []) @
              (if status = JStr ''completed'' then [(''completed'', JStr (now w))] else [])
        in invoke w api Tasks_patch
             (JObj [(''tasklist'', tasklistId), (''task'', taskId), (''requestBody'', JObj body)])
             formatTask))))))"

text \<open>tasks-api.js, \<open>completeTask\<close>.\<close>

definition completeTask :: "world \<Rightarrow> jsval \<Rightarrow> jsval \<Rightarrow> jsval outcome" where
  "completeTask w tasklistId taskId =
     updateTask w tasklistId taskId (JObj [(''status'', JStr ''completed'')])"

text \<open>tasks-api.js, \<open>deleteTask\<close>.\<close>

definition deleteTask :: "world \<Rightarrow> jsval \<Rightarrow> jsval \<Rightarrow> jsval outcome" where
  "deleteTask w tasklistId taskId =
     thenO (buildClient w) (\<lambda>api.
       invoke w api Tasks_delete
         (JObj [(''tasklist'', tasklistId), (''task'', taskId)])
         (\<lambda>d. Inr (JObj [(''deleted'', JBool True), (''taskId'', taskId)])))"

text \<open>tasks-api.js, \<open>moveTask\<close>.\<close>

definition moveTask :: "world \<Rightarrow> jsval \<Rightarrow> jsval \<Rightarrow> jsval \<Rightarrow> jsval outcome" where
  "moveTask w tasklistId taskId opts0 =
     (let opts = js_default opts0 (JObj [])
      in thenO (buildClient w) (\<lambda>api.
         thenO (get_prop opts ''parent'') (\<lambda>parent.
         thenO (get_prop opts ''previous'') (\<lambda>previous.
           invoke w api Tasks_move
             (JObj
               [(''tasklist'', tasklistId),
                (''task'', taskId),
                (''parent'', parent),
                (''previous'', previous)])
             formatTask))))"

section \<open>The tool registry and the dispatcher\<close>

text \<open>index.js, \<open>TOOLS\<close>.\<close>

definition TOOLS :: "jsval list" where
  "TOOLS =
    [JObj
      [(''name'', JStr ''list_task_lists''),
       (''description'', JStr ''Get all Google Task lists for the authenticated user.''),
       (''inputSchema'', JObj
         [(''type'', JStr ''object''),
          (''properties'', JObj
           []),
          (''required'', JArr [])])],
     JObj
      [(''name'', JStr ''list_tasks''),
       (''description'', JStr ''Get tasks from a task list. Use tasklist_id='@default' for the default list.''),
       (''inputSchema'', JObj
         [(''type'', JStr ''object''),
          (''properties'', JObj
           [(''tasklist_id'', JObj
             [(''type'', JStr ''string''),
              (''description'', JStr ''Task list ID. Use '@default' for the default list.''),
              (''default'', JStr ''@default'')]),
            (''show_completed'', JObj
             [(''type'', JStr ''boolean''),
              (''description'', JStr ''Include completed tasks. Default: false.''),
              (''default'', JBool False)]),
            (''due_min'', JObj
             [(''type'', JStr ''string''),
              (''description'', JStr (''ISO 8601 date '' @ em_dash @ '' only return tasks due on or after this date.''))]),
            (''due_max'', JObj
             [(''type'', JStr ''string''),
              (''description'', JStr (''ISO 8601 date '' @ em_dash @ '' only return tasks due on or before this date.''))])]),
          (''required'', JArr [])])],
     JObj
      [(''name'', JStr ''get_task''),
       (''description'', JStr ''Get a single task by its ID.''),
       (''inputSchema'', JObj
         [(''type'', JStr ''object''),
          (''properties'', JObj
           [(''tasklist_id'', JObj
             [(''type'', JStr ''string''),
              (''description'', JStr ''Task list ID.'')]),
            (''task_id'', JObj
             [(''type'', JStr ''string''),
              (''description'', JStr ''Task ID.'')])]),
          (''required'', JArr [JStr ''tasklist_id'', JStr ''task_id''])])],
     JObj
      [(''name'', JStr ''create_task''),
       (''description'', JStr ''Create a new task in a task list.''),
       (''inputSchema'', JObj
         [(''type'', JStr ''object''),
          (''properties'', JObj
           [(''tasklist_id'', JObj
             [(''type'', JStr ''string''),
              (''description'', JStr ''Task list ID. Use '@default' for the default list.''),
              (''default'', JStr ''@default'')]),
            (''title'', JObj
             [(''type'', JStr ''string''),
              (''description'', JStr ''Task title.'')]),
            (''notes'', JObj
             [(''type'', JStr ''string''),
              (''description'', JStr ''Task description / notes.'')]),
            (''due'', JObj
             [(''type'', JStr ''string''),
              (''description'', JStr ''Due date as ISO 8601 string, e.g. '2026-03-01T00:00:00.000Z'.'')]),
            (''parent'', JObj
             [(''type'', JStr ''string''),
              (''description'', JStr ''Parent task ID (for sub-tasks).'')])]),
          (''required'', JArr [JStr ''title''])])],
     JObj
      [(''name'', JStr ''update_task''),
       (''description'', JStr ''Update an existing task. Only provided fields are changed.''),
       (''inputSchema'', JObj
         [(''type'', JStr ''object''),
          (''properties'', JObj
           [(''tasklist_id'', JObj
             [(''type'', JStr ''string''),
              (''description'', JStr ''Task list ID.'')]),
            (''task_id'', JObj
             [(''type'', JStr ''string''),
              (''description'', JStr ''Task ID to update.'')]),
            (''title'', JObj
             [(''type'', JStr ''string''),
              (''description'', JStr ''New title.'')]),
            (''notes'', JObj
             [(''type'', JStr ''string''),
              (''description'', JStr ''New notes.'')]),
            (''due'', JObj
             [(''type'', JStr ''string''),
              (''description'', JStr ''New due date (ISO 8601).'')]),
            (''status'', JObj
             [(''type'', JStr ''string''),
              (''enum'', JArr [JStr ''needsAction'', JStr ''completed'']),
              (''description'', JStr ''Task status.'')])]),
          (''required'', JArr [JStr ''tasklist_id'', JStr ''task_id''])])],
     JObj
      [(''name'', JStr ''complete_task''),
       (''description'', JStr ''Mark a task as completed.''),
       (''inputSchema'', JObj
         [(''type'', JStr ''object''),
          (''properties'', JObj
           [(''tasklist_id'', JObj
             [(''type'', JStr ''string''),
              (''description'', JStr ''Task list ID.'')]),
            (''task_id'', JObj
             [(''type'', JStr ''string''),
              (''description'', JStr ''Task ID.'')])]),
          (''required'', JArr [JStr ''tasklist_id'', JStr ''task_id''])])],
     JObj
      [(''name'', JStr ''delete_task''),
       (''description'', JStr ''Permanently delete a task.''),
       (''inputSchema'', JObj
         [(''type'', JStr ''object''),
          (''properties'', JObj
           [(''tasklist_id'', JObj
             [(''type'', JStr ''string''),
              (''description'', JStr ''Task list ID.'')]),
            (''task_id'', JObj
             [(''type'', JStr ''string''),
              (''description'', JStr ''Task ID.'')])]),
          (''required'', JArr [JStr ''tasklist_id'', JStr ''task_id''])])],
     JObj
      [(''name'', JStr ''move_task''),
       (''description'', JStr ''Move a task (reorder within a list or reparent to another task).''),
       (''inputSchema'', JObj
         [(''type'', JStr ''object''),
          (''properties'', JObj
           [(''tasklist_id'', JObj
             [(''type'', JStr ''string''),
              (''description'', JStr ''Task list ID.'')]),
            (''task_id'', JObj
             [(''type'', JStr ''string''),
              (''description'', JStr ''Task ID to move.'')]),
            (''parent'', JObj
             [(''type'', JStr ''string''),
              (''description'', JStr ''New parent task ID (omit to make it a top-level task).'')]),
            (''previous'', JObj
             [(''type'', JStr ''string''),
              (''description'', JStr ''Task ID of the task after which this task should be placed.'')])]),
          (''required'', JArr [JStr ''tasklist_id'', JStr ''task_id''])])]]"

text \<open>index.js, the handler of \<open>ListToolsRequestSchema\<close>.\<close>

definition listTools :: jsval where
  "listTools = JObj [(''tools'', JArr TOOLS)]"

text \<open>
  index.js, the \<open>switch\<close> inside the handler of \<open>CallToolRequestSchema\<close>: the
  arguments of the chosen operation are read from \<open>args\<close>, then the operation runs.
\<close>

definition dispatch :: "world \<Rightarrow> string \<Rightarrow> jsval \<Rightarrow> jsval outcome" where
  "dispatch w name args =
     (if name = ''list_task_lists'' then listTaskLists w
      else if name = ''list_tasks'' then
        thenO (get_prop args ''tasklist_id'') (\<lambda>tasklist_id.
        thenO (get_prop args ''show_completed'') (\<lambda>show_completed.
        thenO (get_prop args ''due_min'') (\<lambda>due_min.
        thenO (get_prop args ''due_max'') (\<lambda>due_max.
          listTasks w (js_or tasklist_id (JStr ''@default''))
            (JObj
              [(''showCompleted'', show_completed),
               (''dueMin'', due_min),
               (''dueMax'', due_max)])))))
      else if name = ''get_task'' then
        thenO (get_prop args ''tasklist_id'') (\<lambda>tasklist_id.
        thenO (get_prop args ''task_id'') (\<lambda>task_id.
          getTask w tasklist_id task_id))
      else if name = ''create_task'' then
        thenO (get_prop args ''tasklist_id'') (\<lambda>tasklist_id.
        thenO (get_prop args ''title'') (\<lambda>title.
        thenO (get_prop args ''notes'') (\<lambda>notes.
        thenO (get_prop args ''due'') (\<lambda>due.
        thenO (get_prop args ''parent'') (\<lambda>parent.
          createTask w (js_or tasklist_id (JStr ''@default''))
            (JObj
              [(''title'', title),
               (''notes'', notes),
               (''due'', due),
               (''parent'', parent)]))))))
      else if name = ''update_task'' then
        thenO (get_prop args ''tasklist_id'') (\<lambda>tasklist_id.
        thenO (get_prop args ''task_id'') (\<lambda>task_id.
        thenO (get_prop args ''title'') (\<lambda>title.
        thenO (get_prop args ''notes'') (\<lambda>notes.
        thenO (get_prop args ''due'') (\<lambda>due.
        thenO (get_prop args ''status'') (\<lambda>status.
          updateTask w tasklist_id task_id
            (JObj
              [(''title'', title),
               (''notes'', notes),
               (''due'', due),
               (''status'', status)])))))))
      else if name = ''complete_task'' then
        thenO (get_prop args ''tasklist_id'') (\<lambda>tasklist_id.
        thenO (get_prop args ''task_id'') (\<lambda>task_id.
          completeTask w tasklist_id task_id))
      else if name = ''delete_task'' then
        thenO (get_prop args ''tasklist_id'') (\<lambda>tasklist_id.
        thenO (get_prop args ''task_id'') (\<lambda>task_id.
          deleteTask w tasklist_id task_id))
      else if name = ''move_task'' then
        thenO (get_prop args ''tasklist_id'') (\<lambda>tasklist_id.
        thenO (get_prop args ''task_id'') (\<lambda>task_id.
        thenO (get_prop args ''parent'') (\<lambda>parent.
        thenO (get_prop args ''previous'') (\<lambda>previous.
          moveTask w tasklist_id task_id
            (JObj [(''parent'', parent), (''previous'', previous)])))))
      else (Inl (Error (''Unknown tool: '' @ name)), []))"

text \<open>\<open>err.message\<close>.\<close>

fun message :: "world \<Rightarrow> error \<Rightarrow> string" where
  "message w (Error m) = m"
| "message w (TypeError f) = type_error_message w f"

text \<open>
  index.js, the handler of \<open>CallToolRequestSchema\<close>: the \<open>try\<close> around the switch and
  the two objects it returns. The second component is the list of requests issued to the
  remote service during the call.
\<close>

definition callTool :: "world \<Rightarrow> string \<Rightarrow> jsval \<Rightarrow> jsval \<times> request list" where
  "callTool w name args =
     (case dispatch w name args of
        (Inr result, rqs) \<Rightarrow>
          (JObj
            [(''content'', JArr
               [JObj [(''type'', JStr ''text''), (''text'', json_stringify w result)]])],
           rqs)
      | (Inl err, rqs) \<Rightarrow>
          (JObj
            [(''content'', JArr
               [JObj [(''type'', JStr ''text''), (''text'', JStr (''Error: '' @ message w err))]]),
             (''isError'', JBool True)],
           rqs))"

section \<open>Reading the registry\<close>

definition tool_names :: "jsval list" where
  "tool_names = map (\<lambda>t. own_prop t ''name'') TOOLS"

definition required_of :: "jsval \<Rightarrow> jsval list" where
  "required_of t =
     (case own_prop (own_prop t ''inputSchema'') ''required'' of JArr xs \<Rightarrow> xs | _ \<Rightarrow> [])"

definition properties_of :: "jsval \<Rightarrow> (string \<times> jsval) list" where
  "properties_of t =
     (case own_prop (own_prop t ''inputSchema'') ''properties'' of JObj kvs \<Rightarrow> kvs | _ \<Rightarrow> [])"

text \<open>
  Of one descriptor: its name, its \<open>required\<close> array, the declared properties that are
  required, and the other declared properties, each with its \<open>default\<close> and \<open>enum\<close>.
\<close>

definition descriptor_summary ::
  "jsval \<Rightarrow> jsval \<times> jsval list \<times> string list \<times> (string \<times> jsval \<times> jsval) list" where
  "descriptor_summary t =
     (own_prop t ''name'',
      required_of t,
      filter (\<lambda>k. JStr k \<in> set (required_of t)) (map fst (properties_of t)),
      map (\<lambda>kp. (fst kp, own_prop (snd kp) ''default'', own_prop (snd kp) ''enum''))
        (filter (\<lambda>kp. JStr (fst kp) \<notin> set (required_of t)) (properties_of t)))"

text \<open>
  The table of section 6 of the specification, row by row: name, required parameters,
  optional parameters with the default and the admitted values where the table gives them.
\<close>

definition spec_tool_table ::
  "(string \<times> string list \<times> (string \<times> jsval \<times> jsval) list) list" where
  "spec_tool_table =
     [(''list_task_lists'', [], []),
      (''list_tasks'', [],
         [(''tasklist_id'', JStr ''@default'', JUndefined),
          (''show_completed'', JBool False, JUndefined),
          (''due_min'', JUndefined, JUndefined),
          (''due_max'', JUndefined, JUndefined)]),
      (''get_task'', [''tasklist_id'', ''task_id''], []),
      (''create_task'', [''title''],
         [(''tasklist_id'', JStr ''@default'', JUndefined),
          (''notes'', JUndefined, JUndefined),
          (''due'', JUndefined, JUndefined),
          (''parent'', JUndefined, JUndefined)]),
      (''update_task'', [''tasklist_id'', ''task_id''],
         [(''title'', JUndefined, JUndefined),
          (''notes'', JUndefined, JUndefined),
          (''due'', JUndefined, JUndefined),
          (''status'', JUndefined, JArr [JStr ''needsAction'', JStr ''completed''])]),
      (''complete_task'', [''tasklist_id'', ''task_id''], []),
      (''delete_task'', [''tasklist_id'', ''task_id''], []),
      (''move_task'', [''tasklist_id'', ''task_id''],
         [(''parent'', JUndefined, JUndefined),
          (''previous'', JUndefined, JUndefined)])]"

definition spec_row ::
  "string \<times> string list \<times> (string \<times> jsval \<times> jsval) list \<Rightarrow>
   jsval \<times> jsval list \<times> string list \<times> (string \<times> jsval \<times> jsval) list" where
  "spec_row r = (JStr (fst r), map JStr (fst (snd r)), fst (snd r), snd (snd r))"

section \<open>Reading a task\<close>

text \<open>The fields of a Task in section 3 of the specification.\<close>

definition spec_Task_fields :: "string list" where
  "spec_Task_fields =
     [''id'', ''title'', ''notes'', ''status'', ''due'', ''completed'', ''parent'',
      ''position'', ''updated'']"

text \<open>\<open>Object.keys\<close>.\<close>

fun keys :: "jsval \<Rightarrow> string list" where
  "keys (JObj kvs) = map fst kvs"
| "keys v = []"

text \<open>Arrays and objects, the values \<open>JSON.stringify\<close> writes as a text.\<close>

fun array_or_object :: "jsval \<Rightarrow> bool" where
  "array_or_object (JArr xs) = True"
| "array_or_object (JObj kvs) = True"
| "array_or_object v = False"

text \<open>The object \<open>formatTask\<close> returns when it returns.\<close>

definition normalized :: "jsval \<Rightarrow> jsval" where
  "normalized t =
     JObj
       [(''id'', own_prop t ''id''),
        (''title'', js_or (own_prop t ''title'') (JStr [])),
        (''notes'', js_or (own_prop t ''notes'') (JStr [])),
        (''status'', own_prop t ''status''),
        (''due'', js_or (own_prop t ''due'') JNull),
        (''completed'', js_or (own_prop t ''completed'') JNull),
        (''parent'', js_or (own_prop t ''parent'') JNull),
        (''position'', js_or (own_prop t ''position'') JNull),
        (''updated'', own_prop t ''updated''),
        (''selfLink'', own_prop t ''selfLink'')]"

section \<open>A sample world\<close>

definition example_client :: client where
  "example_client =
     \<lparr>client_id = JStr ''cid'', client_secret = JStr ''secret'',
      credentials = JObj [(''refresh_token'', JStr ''r1'')]\<rparr>"

definition example_task :: "(string \<times> jsval) list" where
  "example_task =
     [(''id'', JStr ''T1''),
      (''status'', JStr ''needsAction''),
      (''updated'', JStr ''2026-02-01T10:00:00.000Z''),
      (''selfLink'', JStr ''https://www.googleapis.com/tasks/v1/lists/L1/tasks/T1''),
      (''position'', JStr ''00000000000000000001'')]"

text \<open>
  A service that stores what it is sent: an insert answers with the defined properties of
  the body, a patch with the stored task overwritten by the body.
\<close>

definition example_service :: "client \<Rightarrow> request \<Rightarrow> error + jsval" where
  "example_service c rq =
     (case api_method rq of
        Tasklists_list \<Rightarrow>
          Inr (JObj [(''items'', JArr
            [JObj [(''id'', JStr ''L1''), (''title'', JStr ''My Tasks''),
                   (''updated'', JStr ''2026-02-01T10:00:00.000Z'')]])])
      | Tasks_list \<Rightarrow> Inr (JObj [(''items'', JArr [JObj example_task])])
      | Tasks_get \<Rightarrow>
          (if own_prop (params rq) ''task'' = JStr ''T1'' then Inr (JObj example_task)
           else Inl (Error ''Task not found''))
      | Tasks_insert \<Rightarrow>
          (case own_prop (params rq) ''requestBody'' of
             JObj body \<Rightarrow>
               Inr (JObj ((''id'', JStr ''T2'') #
                      filter (\<lambda>kv. snd kv \<noteq> JUndefined) body @
                      (if own_prop (params rq) ''parent'' = JUndefined then []
                       else [(''parent'', own_prop (params rq) ''parent'')])))
           | _ \<Rightarrow> Inl (Error ''Invalid request''))
      | Tasks_patch \<Rightarrow>
          (case own_prop (params rq) ''requestBody'' of
             JObj body \<Rightarrow> Inr (JObj (body @ example_task))
           | _ \<Rightarrow> Inl (Error ''Invalid request''))
      | Tasks_delete \<Rightarrow> Inr (JStr [])
      | Tasks_move \<Rightarrow> Inr (JObj example_task))"

text \<open>
  The engine of the sample world: its \<open>JSON.stringify\<close> is given on the one result
  that the sample serializes, as the text \<open>JSON.stringify(r, null, 2)\<close> returns there.
\<close>

definition example_stringify :: "jsval \<Rightarrow> jsval" where
  "example_stringify v =
     (if v = JObj [(''deleted'', JBool True), (''taskId'', JStr ''T1'')]
      then JStr
        (''{'' @ [CHR 0x0A] @ ''  '' @ [CHR 0x22] @ ''deleted'' @ [CHR 0x22] @ '': true,'' @
         [CHR 0x0A] @ ''  '' @ [CHR 0x22] @ ''taskId'' @ [CHR 0x22] @ '': '' @
         [CHR 0x22] @ ''T1'' @ [CHR 0x22] @ [CHR 0x0A] @ ''}'')
      else JUndefined)"

definition example_world :: world where
  "example_world =
     \<lparr>creds_exists = True,
      creds_read = Inr (JObj [(''installed'',
        JObj [(''client_id'', JStr ''cid''), (''client_secret'', JStr ''secret'')])]),
      tokens_exists = True,
      tokens_read = Inr (JObj [(''refresh_token'', JStr ''r1'')]),
      service = example_service,
      now = ''2026-03-01T09:30:00.000Z'',
      type_error_message = (\<lambda>f. ''Cannot read properties''),
      json_stringify = example_stringify\<rparr>"

section \<open>Properties\<close>

subsection \<open>Sequencing and property reads\<close>

lemma bindE_Inl [simp]: "bindE (Inl e) f = Inl e"
  by (simp add: bindE_def)

lemma bindE_Inr [simp]: "bindE (Inr x) f = f x"
  by (simp add: bindE_def)

lemma thenO_Inl [simp]: "thenO (Inl e) f = (Inl e, [])"
  by (simp add: thenO_def)

lemma thenO_Inr [simp]: "thenO (Inr x) f = f x"
  by (simp add: thenO_def)

lemma get_prop_JObj [simp]: "get_prop (JObj kvs) k = Inr (own_prop (JObj kvs) k)"
  by (simp add: get_prop_def)

lemma get_prop_JUndefined [simp]:
  "get_prop JUndefined k = Inl (TypeError (ReadProperty JUndefined k))"
  by (simp add: get_prop_def)

lemma get_prop_JNull [simp]: "get_prop JNull k = Inl (TypeError (ReadProperty JNull k))"
  by (simp add: get_prop_def)

lemma js_or_absent [simp]: "js_or JUndefined d = d"
  by (simp add: js_or_def)

lemma js_or_stable: "\<not> truthy d \<Longrightarrow> js_or (js_or x d) d = js_or x d"
  by (simp add: js_or_def)

subsection \<open>Normalization\<close>

lemma formatTask_JObj: "formatTask (JObj kvs) = Inr (normalized (JObj kvs))"
  by (simp add: formatTask_def normalized_def)

lemma formatTask_Inr: "formatTask t = Inr r \<Longrightarrow> r = normalized t"
  by (cases "t = JUndefined \<or> t = JNull")
     (auto simp: formatTask_def normalized_def get_prop_def)

lemma own_prop_normalized:
  "own_prop (normalized t) ''id'' = own_prop t ''id''"
  "own_prop (normalized t) ''title'' = js_or (own_prop t ''title'') (JStr [])"
  "own_prop (normalized t) ''notes'' = js_or (own_prop t ''notes'') (JStr [])"
  "own_prop (normalized t) ''status'' = own_prop t ''status''"
  "own_prop (normalized t) ''due'' = js_or (own_prop t ''due'') JNull"
  "own_prop (normalized t) ''completed'' = js_or (own_prop t ''completed'') JNull"
  "own_prop (normalized t) ''parent'' = js_or (own_prop t ''parent'') JNull"
  "own_prop (normalized t) ''position'' = js_or (own_prop t ''position'') JNull"
  "own_prop (normalized t) ''updated'' = own_prop t ''updated''"
  "own_prop (normalized t) ''selfLink'' = own_prop t ''selfLink''"
  by (simp_all add: normalized_def)

lemma normalized_idem: "normalized (normalized t) = normalized t"
  unfolding normalized_def [of "normalized t"] own_prop_normalized
  by (simp add: js_or_stable normalized_def)

subsection \<open>Operations that return a Task\<close>

lemma snd_invoke [simp]:
  "snd (invoke w api m ps k) = [\<lparr>api_method = m, params = ps\<rparr>]"
  by (simp add: invoke_def Let_def split: sum.splits)

lemma fst_invoke:
  "service w api \<lparr>api_method = m, params = ps\<rparr> = Inr d \<Longrightarrow> fst (invoke w api m ps k) = k d"
  by (simp add: invoke_def)

text \<open>
  Each operation that returns a Task issues one request, and returns the normalization of
  what the service answers to it.
\<close>

lemma invoke_applies:
  "snd (invoke w api m ps k) = [\<lparr>api_method = m, params = ps\<rparr>] \<and>
   api_method \<lparr>api_method = m, params = ps\<rparr> = m \<and>
   (\<forall>d. service w api \<lparr>api_method = m, params = ps\<rparr> = Inr d \<longrightarrow>
      fst (invoke w api m ps k) = k d)"
  by (simp add: fst_invoke)

lemma getTask_applies:
  assumes "buildClient w = Inr api"
  shows "\<exists>rq. snd (getTask w l t) = [rq] \<and> api_method rq = Tasks_get \<and>
          (\<forall>d. service w api rq = Inr d \<longrightarrow> fst (getTask w l t) = formatTask d)"
  unfolding getTask_def using assms invoke_applies [of w api Tasks_get _ formatTask]
  by (simp del: snd_invoke)

lemma createTask_applies:
  assumes "buildClient w = Inr api"
  shows "\<exists>rq. snd (createTask w l (JObj task)) = [rq] \<and> api_method rq = Tasks_insert \<and>
          (\<forall>d. service w api rq = Inr d \<longrightarrow>
             fst (createTask w l (JObj task)) = formatTask d)"
  unfolding createTask_def Let_def using assms invoke_applies [of w api Tasks_insert _ formatTask]
  by (simp del: snd_invoke)

lemma updateTask_applies:
  assumes "buildClient w = Inr api"
  shows "\<exists>rq. snd (updateTask w l t (JObj u)) = [rq] \<and> api_method rq = Tasks_patch \<and>
          (\<forall>d. service w api rq = Inr d \<longrightarrow>
             fst (updateTask w l t (JObj u)) = formatTask d)"
  unfolding updateTask_def Let_def using assms invoke_applies [of w api Tasks_patch _ formatTask]
  by (simp del: snd_invoke)

lemma moveTask_applies:
  assumes "buildClient w = Inr api"
  shows "\<exists>rq. snd (moveTask w l t (JObj opts)) = [rq] \<and> api_method rq = Tasks_move \<and>
          (\<forall>d. service w api rq = Inr d \<longrightarrow>
             fst (moveTask w l t (JObj opts)) = formatTask d)"
  unfolding moveTask_def Let_def using assms invoke_applies [of w api Tasks_move _ formatTask]
  by (simp add: js_default_def del: snd_invoke)

lemma own_prop_is_array: "own_prop d k = JArr xs \<Longrightarrow> \<exists>dkvs. d = JObj dkvs"
  by (cases d) simp_all

lemma list_items_normalized:
  assumes "own_prop d ''items'' = JArr xs"
  shows "bindE (get_prop d ''items'') (\<lambda>items. array_map formatTask (js_or items (JArr []))) =
         bindE (mapE formatTask xs) (\<lambda>ys. Inr (JArr ys))"
proof -
  from assms obtain dkvs where "d = JObj dkvs"
    using own_prop_is_array by blast
  with assms show ?thesis
    by (simp add: array_map_def js_or_def)
qed

lemma listTasks_applies:
  assumes "buildClient w = Inr api"
  shows "\<exists>rq. snd (listTasks w l (JObj opts)) = [rq] \<and> api_method rq = Tasks_list \<and>
          (\<forall>d xs. service w api rq = Inr d \<and> own_prop d ''items'' = JArr xs \<longrightarrow>
             fst (listTasks w l (JObj opts)) =
               bindE (mapE formatTask xs) (\<lambda>ys. Inr (JArr ys)))"
proof -
  let ?k = "\<lambda>d. bindE (get_prop d ''items'')
              (\<lambda>items. array_map formatTask (js_or items (JArr [])))"
  from invoke_applies [of w api Tasks_list _ ?k] list_items_normalized assms
  show ?thesis
    unfolding listTasks_def Let_def
    by (simp add: js_default_def del: snd_invoke)
qed

text \<open>
  C5. Normalizing a task record succeeds, and normalizing its result again returns that
  same object: every field is unchanged by the second application.
\<close>

theorem formatTask_idempotent:
  "\<exists>r. formatTask (JObj kvs) = Inr r \<and> formatTask r = Inr r"
proof -
  have "formatTask (normalized (JObj kvs)) = Inr (normalized (normalized (JObj kvs)))"
    unfolding normalized_def [of "JObj kvs"] by (rule formatTask_JObj)
  then show ?thesis
    by (simp add: formatTask_JObj normalized_idem)
qed


lemma buildClient_example [simp]: "buildClient example_world = Inr example_client"
  by (simp add: buildClient_def example_world_def example_client_def destructure_client_def)

lemma service_example [simp]: "service example_world = example_service"
  by (simp add: example_world_def)

lemma now_example [simp]: "now example_world = ''2026-03-01T09:30:00.000Z''"
  by (simp add: example_world_def)

lemma json_stringify_example [simp]: "json_stringify example_world = example_stringify"
  by (simp add: example_world_def)



text \<open>
  C10. The object returned by normalization has ten properties: the nine fields of the
  documented Task and, after them, \<open>selfLink\<close>, which is the raw record's own; \<open>selfLink\<close>
  is not among the documented fields.
\<close>

theorem formatTask_has_selfLink:
  "\<exists>r. formatTask (JObj kvs) = Inr r \<and>
       keys r = spec_Task_fields @ [''selfLink''] \<and>
       length (keys r) = 10 \<and>
       ''selfLink'' \<notin> set spec_Task_fields \<and>
       own_prop r ''selfLink'' = own_prop (JObj kvs) ''selfLink''"
  unfolding formatTask_JObj
  by (simp add: own_prop_normalized) (simp add: normalized_def spec_Task_fields_def)

subsection \<open>The dispatch boundary\<close>

lemma thenO_InrE:
  assumes "thenO m f = (Inr r, rqs)"
  obtains x where "m = Inr x" and "f x = (Inr r, rqs)"
  using assms by (cases m) simp_all

lemma bindE_InrE:
  assumes "bindE m f = Inr r"
  obtains x where "m = Inr x" and "f x = Inr r"
  using assms by (cases m) simp_all

lemma invoke_InrE:
  assumes "invoke w api m ps k = (Inr r, rqs)"
  obtains d where "k d = Inr r"
  using assms by (auto simp: invoke_def Let_def split: sum.splits)

lemma array_map_Inr: "array_map f v = Inr r \<Longrightarrow> array_or_object r"
  by (cases v) (auto simp: array_map_def elim!: bindE_InrE)

lemma formatTask_structured: "formatTask t = Inr r \<Longrightarrow> array_or_object r"
  by (auto dest!: formatTask_Inr simp: normalized_def)

lemma listTaskLists_structured: "listTaskLists w = (Inr r, rqs) \<Longrightarrow> array_or_object r"
  unfolding listTaskLists_def
  by (elim thenO_InrE invoke_InrE bindE_InrE) (rule array_map_Inr)

lemma listTasks_structured: "listTasks w l opts = (Inr r, rqs) \<Longrightarrow> array_or_object r"
  unfolding listTasks_def Let_def
  by (elim thenO_InrE invoke_InrE bindE_InrE) (rule array_map_Inr)

lemma getTask_structured: "getTask w l t = (Inr r, rqs) \<Longrightarrow> array_or_object r"
  unfolding getTask_def
  by (elim thenO_InrE invoke_InrE) (rule formatTask_structured)

lemma createTask_structured: "createTask w l task = (Inr r, rqs) \<Longrightarrow> array_or_object r"
  unfolding createTask_def Let_def
  by (elim thenO_InrE invoke_InrE) (rule formatTask_structured)

lemma updateTask_structured: "updateTask w l t u = (Inr r, rqs) \<Longrightarrow> array_or_object r"
  unfolding updateTask_def Let_def
  by (elim thenO_InrE invoke_InrE) (rule formatTask_structured)

lemma deleteTask_structured: "deleteTask w l t = (Inr r, rqs) \<Longrightarrow> array_or_object r"
  unfolding deleteTask_def
  by (elim thenO_InrE invoke_InrE) auto

lemma moveTask_structured: "moveTask w l t opts = (Inr r, rqs) \<Longrightarrow> array_or_object r"
  unfolding moveTask_def Let_def
  by (elim thenO_InrE invoke_InrE) (rule formatTask_structured)

lemma dispatch_structured:
  assumes "dispatch w name args = (Inr r, rqs)"
  shows "array_or_object r"
  using assms unfolding dispatch_def completeTask_def
  by (auto split: if_splits elim!: thenO_InrE
      dest: listTaskLists_structured listTasks_structured getTask_structured
        createTask_structured updateTask_structured deleteTask_structured
        moveTask_structured)

lemma tool_names_eq:
  "tool_names =
     [JStr ''list_task_lists'', JStr ''list_tasks'', JStr ''get_task'', JStr ''create_task'',
      JStr ''update_task'', JStr ''complete_task'', JStr ''delete_task'', JStr ''move_task'']"
  by (simp add: tool_names_def TOOLS_def)

lemma dispatch_unknown:
  assumes "JStr name \<notin> set tool_names"
  shows "dispatch w name args = (Inl (Error (''Unknown tool: '' @ name)), [])"
proof -
  from assms have "name \<noteq> ''list_task_lists''" "name \<noteq> ''list_tasks''" "name \<noteq> ''get_task''"
    "name \<noteq> ''create_task''" "name \<noteq> ''update_task''" "name \<noteq> ''complete_task''"
    "name \<noteq> ''delete_task''" "name \<noteq> ''move_task''"
    unfolding tool_names_eq by auto
  then show ?thesis
    unfolding dispatch_def by (simp only: if_False)
qed

text \<open>
  C1. Whatever error the switch of the call handler ends with, the handler returns an
  object whose \<open>isError\<close> is true and whose one text element is \<open>Error: \<close> followed by
  the error's message. A name that is none of the eight registered names ends with the
  error \<open>Unknown tool: name\<close>. The handler returns an object of one of its two shapes on
  every input: nothing is thrown to the caller.
\<close>

theorem callTool_catches_errors:
  "(dispatch w name args = (Inl e, rqs) \<longrightarrow>
      callTool w name args =
        (JObj
          [(''content'', JArr
             [JObj [(''type'', JStr ''text''), (''text'', JStr (''Error: '' @ message w e))]]),
           (''isError'', JBool True)],
         rqs)) \<and>
   (JStr name \<notin> set tool_names \<longrightarrow>
      dispatch w name args = (Inl (Error (''Unknown tool: '' @ name)), [])) \<and>
   (\<exists>txt. fst (callTool w name args) =
            JObj [(''content'', JArr [JObj [(''type'', JStr ''text''), (''text'', txt)]])] \<or>
          fst (callTool w name args) =
            JObj [(''content'', JArr [JObj [(''type'', JStr ''text''), (''text'', txt)]]),
                  (''isError'', JBool True)])"
proof (intro conjI impI)
  assume "dispatch w name args = (Inl e, rqs)"
  then show "callTool w name args =
        (JObj
          [(''content'', JArr
             [JObj [(''type'', JStr ''text''), (''text'', JStr (''Error: '' @ message w e))]]),
           (''isError'', JBool True)],
         rqs)"
    by (simp add: callTool_def)
next
  assume "JStr name \<notin> set tool_names"
  then show "dispatch w name args = (Inl (Error (''Unknown tool: '' @ name)), [])"
    by (rule dispatch_unknown)
next
  obtain res rqs where d: "dispatch w name args = (res, rqs)"
    by (cases "dispatch w name args")
  show "\<exists>txt. fst (callTool w name args) =
            JObj [(''content'', JArr [JObj [(''type'', JStr ''text''), (''text'', txt)]])] \<or>
          fst (callTool w name args) =
            JObj [(''content'', JArr [JObj [(''type'', JStr ''text''), (''text'', txt)]]),
                  (''isError'', JBool True)]"
    using d by (cases res) (simp_all add: callTool_def)
qed

theorem callTool_catches_errors_witness:
  "JStr ''unknown_tool_xyz'' \<notin> set tool_names \<and>
   dispatch example_world ''unknown_tool_xyz'' (JObj []) =
     (Inl (Error ''Unknown tool: unknown_tool_xyz''), []) \<and>
   callTool example_world ''unknown_tool_xyz'' (JObj []) =
     (JObj
       [(''content'', JArr
          [JObj [(''type'', JStr ''text''),
                 (''text'', JStr ''Error: Unknown tool: unknown_tool_xyz'')]]),
        (''isError'', JBool True)],
      []) \<and>
   dispatch example_world ''get_task''
     (JObj [(''tasklist_id'', JStr ''L1''), (''task_id'', JStr ''T9'')]) =
     (Inl (Error ''Task not found''),
      [\<lparr>api_method = Tasks_get,
        params = JObj [(''tasklist'', JStr ''L1''), (''task'', JStr ''T9'')]\<rparr>]) \<and>
   callTool example_world ''get_task''
     (JObj [(''tasklist_id'', JStr ''L1''), (''task_id'', JStr ''T9'')]) =
     (JObj
       [(''content'', JArr
          [JObj [(''type'', JStr ''text''), (''text'', JStr ''Error: Task not found'')]]),
        (''isError'', JBool True)],
      [\<lparr>api_method = Tasks_get,
        params = JObj [(''tasklist'', JStr ''L1''), (''task'', JStr ''T9'')]\<rparr>])"
proof -
  have n: "JStr ''unknown_tool_xyz'' \<notin> set tool_names"
    by (simp add: tool_names_eq)
  from callTool_catches_errors [of example_world "''unknown_tool_xyz''" "JObj []"] n
  have d: "dispatch example_world ''unknown_tool_xyz'' (JObj []) =
     (Inl (Error ''Unknown tool: unknown_tool_xyz''), [])"
    by simp
  from callTool_catches_errors [of example_world "''unknown_tool_xyz''" "JObj []"
      "Error ''Unknown tool: unknown_tool_xyz''" "[]"] d
  have c: "callTool example_world ''unknown_tool_xyz'' (JObj []) =
     (JObj
       [(''content'', JArr
          [JObj [(''type'', JStr ''text''),
                 (''text'', JStr ''Error: Unknown tool: unknown_tool_xyz'')]]),
        (''isError'', JBool True)],
      [])"
    by simp
  have g: "dispatch example_world ''get_task''
     (JObj [(''tasklist_id'', JStr ''L1''), (''task_id'', JStr ''T9'')]) =
     (Inl (Error ''Task not found''),
      [\<lparr>api_method = Tasks_get,
        params = JObj [(''tasklist'', JStr ''L1''), (''task'', JStr ''T9'')]\<rparr>])"
    by (simp add: dispatch_def getTask_def invoke_def example_service_def)
  from callTool_catches_errors [of example_world "''get_task''"
      "JObj [(''tasklist_id'', JStr ''L1''), (''task_id'', JStr ''T9'')]"
      "Error ''Task not found''"
      "[\<lparr>api_method = Tasks_get,
         params = JObj [(''tasklist'', JStr ''L1''), (''task'', JStr ''T9'')]\<rparr>]"] g
  have h: "callTool example_world ''get_task''
     (JObj [(''tasklist_id'', JStr ''L1''), (''task_id'', JStr ''T9'')]) =
     (JObj
       [(''content'', JArr
          [JObj [(''type'', JStr ''text''), (''text'', JStr ''Error: Task not found'')]]),
        (''isError'', JBool True)],
      [\<lparr>api_method = Tasks_get,
        params = JObj [(''tasklist'', JStr ''L1''), (''task'', JStr ''T9'')]\<rparr>])"
    by simp
  from n d c g h show ?thesis by (intro conjI)
qed

text \<open>
  C2, as the code has it. When the switch of the call handler ends with a result, the
  handler returns an object with the single property \<open>content\<close>, whose one text element
  is what \<open>JSON.stringify(result, null, 2)\<close> returns on that result; the object has no
  \<open>isError\<close> property. The result is an array or an object.
\<close>

theorem callTool_wraps_result:
  assumes "dispatch w name args = (Inr r, rqs)"
  shows "callTool w name args =
           (JObj
             [(''content'', JArr
                [JObj [(''type'', JStr ''text''), (''text'', json_stringify w r)]])],
            rqs) \<and>
         own_prop (fst (callTool w name args)) ''isError'' = JUndefined \<and>
         array_or_object r"
  using assms dispatch_structured [OF assms]
  by (simp add: callTool_def)

lemma dispatch_delete_example:
  "dispatch example_world ''delete_task''
     (JObj [(''tasklist_id'', JStr ''L1''), (''task_id'', JStr ''T1'')]) =
   (Inr (JObj [(''deleted'', JBool True), (''taskId'', JStr ''T1'')]),
    [\<lparr>api_method = Tasks_delete,
      params = JObj [(''tasklist'', JStr ''L1''), (''task'', JStr ''T1'')]\<rparr>])"
  by (simp add: dispatch_def deleteTask_def invoke_def example_service_def)

theorem callTool_wraps_result_witness:
  "dispatch example_world ''delete_task''
     (JObj [(''tasklist_id'', JStr ''L1''), (''task_id'', JStr ''T1'')]) =
   (Inr (JObj [(''deleted'', JBool True), (''taskId'', JStr ''T1'')]),
    [\<lparr>api_method = Tasks_delete,
      params = JObj [(''tasklist'', JStr ''L1''), (''task'', JStr ''T1'')]\<rparr>]) \<and>
   callTool example_world ''delete_task''
     (JObj [(''tasklist_id'', JStr ''L1''), (''task_id'', JStr ''T1'')]) =
   (JObj
     [(''content'', JArr
        [JObj [(''type'', JStr ''text''),
               (''text'', JStr
                  (''{'' @ [CHR 0x0A] @ ''  '' @ [CHR 0x22] @ ''deleted'' @ [CHR 0x22] @
                   '': true,'' @ [CHR 0x0A] @ ''  '' @ [CHR 0x22] @ ''taskId'' @ [CHR 0x22] @
                   '': '' @ [CHR 0x22] @ ''T1'' @ [CHR 0x22] @ [CHR 0x0A] @ ''}''))]])],
    [\<lparr>api_method = Tasks_delete,
      params = JObj [(''tasklist'', JStr ''L1''), (''task'', JStr ''T1'')]\<rparr>])"
  using callTool_wraps_result [OF dispatch_delete_example]
  by (simp add: dispatch_delete_example example_stringify_def)

text \<open>
  C2 as stated fails: a successful \<open>delete_task\<close> returns an object whose \<open>isError\<close> is
  absent, not \<open>false\<close>.
\<close>

theorem callTool_isError_false_counterexample:
  "fst (dispatch example_world ''delete_task''
          (JObj [(''tasklist_id'', JStr ''L1''), (''task_id'', JStr ''T1'')])) =
     Inr (JObj [(''deleted'', JBool True), (''taskId'', JStr ''T1'')]) \<and>
   own_prop (fst (callTool example_world ''delete_task''
          (JObj [(''tasklist_id'', JStr ''L1''), (''task_id'', JStr ''T1'')]))) ''isError''
     \<noteq> JBool False"
  by (simp add: callTool_def dispatch_delete_example)

subsection \<open>The registry\<close>

text \<open>
  C3. The list handler returns the registry as it is written; it takes no argument and
  reads no state. The registry has eight descriptors with eight different names, and
  descriptor by descriptor its name, its required parameters (each a declared property)
  and its other declared properties with their defaults and admitted values are the rows
  of the table of section 6.
\<close>

theorem listTools_matches_table:
  "listTools = JObj [(''tools'', JArr TOOLS)] \<and>
   length TOOLS = 8 \<and>
   distinct tool_names \<and>
   map descriptor_summary TOOLS = map spec_row spec_tool_table"
proof (intro conjI)
  show "listTools = JObj [(''tools'', JArr TOOLS)]"
    by (simp add: listTools_def)
  show "length TOOLS = 8"
    by (simp add: TOOLS_def)
  show "distinct tool_names"
    by (simp add: tool_names_eq)
  show "map descriptor_summary TOOLS = map spec_row spec_tool_table"
    by (simp add: TOOLS_def spec_tool_table_def spec_row_def descriptor_summary_def
        required_of_def properties_of_def)
qed

subsection \<open>Update and complete\<close>

lemma updateTask_JObj:
  "updateTask w l t (JObj u) =
     thenO (buildClient w) (\<lambda>api.
       invoke w api Tasks_patch
         (JObj
           [(''tasklist'', l), (''task'', t),
            (''requestBody'', JObj
              ((if own_prop (JObj u) ''title'' \<noteq> JUndefined
                then [(''title'', own_prop (JObj u) ''title'')] else []) @
               (if own_prop (JObj u) ''notes'' \<noteq> JUndefined
                then [(''notes'', own_prop (JObj u) ''notes'')] else []) @
               (if own_prop (JObj u) ''due'' \<noteq> JUndefined
                then [(''due'', own_prop (JObj u) ''due'')] else []) @
               (if own_prop (JObj u) ''status'' \<noteq> JUndefined
                then [(''status'', own_prop (JObj u) ''status'')] else []) @
               (if own_prop (JObj u) ''status'' = JStr ''completed''
                then [(''completed'', JStr (now w))] else [])))])
         formatTask)"
  by (cases "buildClient w") (simp_all add: updateTask_def Let_def)

lemma dispatch_update_task:
  "dispatch w ''update_task'' (JObj a) =
     updateTask w (own_prop (JObj a) ''tasklist_id'') (own_prop (JObj a) ''task_id'')
       (JObj
         [(''title'', own_prop (JObj a) ''title''),
          (''notes'', own_prop (JObj a) ''notes''),
          (''due'', own_prop (JObj a) ''due''),
          (''status'', own_prop (JObj a) ''status'')])"
  by (simp add: dispatch_def)

lemma dispatch_complete_task:
  "dispatch w ''complete_task'' (JObj a) =
     completeTask w (own_prop (JObj a) ''tasklist_id'') (own_prop (JObj a) ''task_id'')"
  by (simp add: dispatch_def)

text \<open>
  C6. \<open>completeTask\<close> is \<open>updateTask\<close> with the single field \<open>status: "completed"\<close>: the
  same request (a patch whose body is that status and the completion stamp) and the same
  result. The same holds of the two tools: \<open>complete_task\<close> on a list id and a task id
  returns what \<open>update_task\<close> returns on them with only \<open>status: "completed"\<close> added, and
  issues the same requests.
\<close>

theorem completeTask_is_update_completed:
  "completeTask w l t = updateTask w l t (JObj [(''status'', JStr ''completed'')]) \<and>
   snd (completeTask w l t) =
     (case buildClient w of
        Inl e \<Rightarrow> []
      | Inr api \<Rightarrow>
          [\<lparr>api_method = Tasks_patch,
            params = JObj
              [(''tasklist'', l), (''task'', t),
               (''requestBody'', JObj
                  [(''status'', JStr ''completed''), (''completed'', JStr (now w))])]\<rparr>]) \<and>
   callTool w ''complete_task'' (JObj [(''tasklist_id'', l), (''task_id'', t)]) =
   callTool w ''update_task''
     (JObj [(''tasklist_id'', l), (''task_id'', t), (''status'', JStr ''completed'')])"
proof (intro conjI)
  show "completeTask w l t = updateTask w l t (JObj [(''status'', JStr ''completed'')])"
    by (simp add: completeTask_def)
  show "snd (completeTask w l t) =
     (case buildClient w of
        Inl e \<Rightarrow> []
      | Inr api \<Rightarrow>
          [\<lparr>api_method = Tasks_patch,
            params = JObj
              [(''tasklist'', l), (''task'', t),
               (''requestBody'', JObj
                  [(''status'', JStr ''completed''), (''completed'', JStr (now w))])]\<rparr>])"
    unfolding completeTask_def updateTask_JObj
    by (cases "buildClient w") simp_all
  have "dispatch w ''complete_task'' (JObj [(''tasklist_id'', l), (''task_id'', t)]) =
        dispatch w ''update_task''
          (JObj [(''tasklist_id'', l), (''task_id'', t), (''status'', JStr ''completed'')])"
    unfolding dispatch_update_task dispatch_complete_task completeTask_def updateTask_JObj
    by simp
  then show "callTool w ''complete_task'' (JObj [(''tasklist_id'', l), (''task_id'', t)]) =
   callTool w ''update_task''
     (JObj [(''tasklist_id'', l), (''task_id'', t), (''status'', JStr ''completed'')])"
    by (simp add: callTool_def)
qed

lemma patch_body_distinct:
  "distinct (map fst
     ((if ti \<noteq> JUndefined then [(''title'', ti)] else []) @
      (if no \<noteq> JUndefined then [(''notes'', no)] else []) @
      (if du \<noteq> JUndefined then [(''due'', du)] else []) @
      (if st \<noteq> JUndefined then [(''status'', st)] else []) @
      (if st = JStr ''completed'' then [(''completed'', n)] else [])))"
  by simp

lemma patch_body_keys:
  "set (map fst
     ((if ti \<noteq> JUndefined then [(''title'', ti)] else []) @
      (if no \<noteq> JUndefined then [(''notes'', no)] else []) @
      (if du \<noteq> JUndefined then [(''due'', du)] else []) @
      (if st \<noteq> JUndefined then [(''status'', st)] else []) @
      (if st = JStr ''completed'' then [(''completed'', n)] else [])))
   \<subseteq> {''title'', ''notes'', ''due'', ''status'', ''completed''}"
  by auto

lemma patch_body_completed_key:
  "''completed'' \<in> set (map fst
     ((if ti \<noteq> JUndefined then [(''title'', ti)] else []) @
      (if no \<noteq> JUndefined then [(''notes'', no)] else []) @
      (if du \<noteq> JUndefined then [(''due'', du)] else []) @
      (if st \<noteq> JUndefined then [(''status'', st)] else []) @
      (if st = JStr ''completed'' then [(''completed'', n)] else [])))
   \<longleftrightarrow> st = JStr ''completed''"
  by auto

lemma patch_body_completed_value:
  "st = JStr ''completed'' \<Longrightarrow>
   own_prop (JObj
     ((if ti \<noteq> JUndefined then [(''title'', ti)] else []) @
      (if no \<noteq> JUndefined then [(''notes'', no)] else []) @
      (if du \<noteq> JUndefined then [(''due'', du)] else []) @
      (if st \<noteq> JUndefined then [(''status'', st)] else []) @
      (if st = JStr ''completed'' then [(''completed'', n)] else []))) ''completed'' = n"
  by simp

lemma patch_body_four_keys:
  "(''title'' \<in> set (map fst
     ((if ti \<noteq> JUndefined then [(''title'', ti)] else []) @
      (if no \<noteq> JUndefined then [(''notes'', no)] else []) @
      (if du \<noteq> JUndefined then [(''due'', du)] else []) @
      (if st \<noteq> JUndefined then [(''status'', st)] else []) @
      (if st = JStr ''completed'' then [(''completed'', n)] else []))) \<longleftrightarrow> ti \<noteq> JUndefined) \<and>
   (''notes'' \<in> set (map fst
     ((if ti \<noteq> JUndefined then [(''title'', ti)] else []) @
      (if no \<noteq> JUndefined then [(''notes'', no)] else []) @
      (if du \<noteq> JUndefined then [(''due'', du)] else []) @
      (if st \<noteq> JUndefined then [(''status'', st)] else []) @
      (if st = JStr ''completed'' then [(''completed'', n)] else []))) \<longleftrightarrow> no \<noteq> JUndefined) \<and>
   (''due'' \<in> set (map fst
     ((if ti \<noteq> JUndefined then [(''title'', ti)] else []) @
      (if no \<noteq> JUndefined then [(''notes'', no)] else []) @
      (if du \<noteq> JUndefined then [(''due'', du)] else []) @
      (if st \<noteq> JUndefined then [(''status'', st)] else []) @
      (if st = JStr ''completed'' then [(''completed'', n)] else []))) \<longleftrightarrow> du \<noteq> JUndefined) \<and>
   (''status'' \<in> set (map fst
     ((if ti \<noteq> JUndefined then [(''title'', ti)] else []) @
      (if no \<noteq> JUndefined then [(''notes'', no)] else []) @
      (if du \<noteq> JUndefined then [(''due'', du)] else []) @
      (if st \<noteq> JUndefined then [(''status'', st)] else []) @
      (if st = JStr ''completed'' then [(''completed'', n)] else []))) \<longleftrightarrow> st \<noteq> JUndefined)"
  by auto

lemma patch_body_four_values:
  "own_prop (JObj
     ((if ti \<noteq> JUndefined then [(''title'', ti)] else []) @
      (if no \<noteq> JUndefined then [(''notes'', no)] else []) @
      (if du \<noteq> JUndefined then [(''due'', du)] else []) @
      (if st \<noteq> JUndefined then [(''status'', st)] else []) @
      (if st = JStr ''completed'' then [(''completed'', n)] else []))) ''title'' = ti \<and>
   own_prop (JObj
     ((if ti \<noteq> JUndefined then [(''title'', ti)] else []) @
      (if no \<noteq> JUndefined then [(''notes'', no)] else []) @
      (if du \<noteq> JUndefined then [(''due'', du)] else []) @
      (if st \<noteq> JUndefined then [(''status'', st)] else []) @
      (if st = JStr ''completed'' then [(''completed'', n)] else []))) ''notes'' = no \<and>
   own_prop (JObj
     ((if ti \<noteq> JUndefined then [(''title'', ti)] else []) @
      (if no \<noteq> JUndefined then [(''notes'', no)] else []) @
      (if du \<noteq> JUndefined then [(''due'', du)] else []) @
      (if st \<noteq> JUndefined then [(''status'', st)] else []) @
      (if st = JStr ''completed'' then [(''completed'', n)] else []))) ''due'' = du \<and>
   own_prop (JObj
     ((if ti \<noteq> JUndefined then [(''title'', ti)] else []) @
      (if no \<noteq> JUndefined then [(''notes'', no)] else []) @
      (if du \<noteq> JUndefined then [(''due'', du)] else []) @
      (if st \<noteq> JUndefined then [(''status'', st)] else []) @
      (if st = JStr ''completed'' then [(''completed'', n)] else []))) ''status'' = st"
  by simp

text \<open>
  C7. When the client is built, \<open>updateTask\<close> issues one patch request whose body has,
  of title, notes, due and status, exactly those that are defined in the updates, each with
  the value given; it has no other property except \<open>completed\<close>, which is there exactly
  when the status given is \<open>"completed"\<close>, and is then the current time. The tool
  \<open>update_task\<close> passes the four properties of its arguments on as they are.
\<close>

theorem updateTask_partial_body:
  assumes "buildClient w = Inr api"
  shows
    "(\<exists>body.
        snd (updateTask w l t (JObj u)) =
          [\<lparr>api_method = Tasks_patch,
            params = JObj [(''tasklist'', l), (''task'', t), (''requestBody'', JObj body)]\<rparr>] \<and>
        distinct (map fst body) \<and>
        (\<forall>k \<in> {''title'', ''notes'', ''due'', ''status''}.
           (k \<in> set (map fst body) \<longleftrightarrow> own_prop (JObj u) k \<noteq> JUndefined) \<and>
           own_prop (JObj body) k = own_prop (JObj u) k) \<and>
        set (map fst body) \<subseteq> {''title'', ''notes'', ''due'', ''status'', ''completed''} \<and>
        (''completed'' \<in> set (map fst body) \<longleftrightarrow>
           own_prop (JObj u) ''status'' = JStr ''completed'') \<and>
        (own_prop (JObj u) ''status'' = JStr ''completed'' \<longrightarrow>
           own_prop (JObj body) ''completed'' = JStr (now w))) \<and>
     dispatch w ''update_task'' (JObj a) =
       updateTask w (own_prop (JObj a) ''tasklist_id'') (own_prop (JObj a) ''task_id'')
         (JObj
           [(''title'', own_prop (JObj a) ''title''),
            (''notes'', own_prop (JObj a) ''notes''),
            (''due'', own_prop (JObj a) ''due''),
            (''status'', own_prop (JObj a) ''status'')])"
proof (intro conjI)
  let ?body =
    "(if own_prop (JObj u) ''title'' \<noteq> JUndefined
      then [(''title'', own_prop (JObj u) ''title'')] else []) @
     (if own_prop (JObj u) ''notes'' \<noteq> JUndefined
      then [(''notes'', own_prop (JObj u) ''notes'')] else []) @
     (if own_prop (JObj u) ''due'' \<noteq> JUndefined
      then [(''due'', own_prop (JObj u) ''due'')] else []) @
     (if own_prop (JObj u) ''status'' \<noteq> JUndefined
      then [(''status'', own_prop (JObj u) ''status'')] else []) @
     (if own_prop (JObj u) ''status'' = JStr ''completed''
      then [(''completed'', JStr (now w))] else [])"
  have rq: "snd (updateTask w l t (JObj u)) =
          [\<lparr>api_method = Tasks_patch,
            params = JObj [(''tasklist'', l), (''task'', t), (''requestBody'', JObj ?body)]\<rparr>]"
    unfolding updateTask_JObj using assms by simp
  have d: "distinct (map fst ?body)"
    by (rule patch_body_distinct)
  have four: "\<forall>k \<in> {''title'', ''notes'', ''due'', ''status''}.
           (k \<in> set (map fst ?body) \<longleftrightarrow> own_prop (JObj u) k \<noteq> JUndefined) \<and>
           own_prop (JObj ?body) k = own_prop (JObj u) k"
    using patch_body_four_keys [of "own_prop (JObj u) ''title''" "own_prop (JObj u) ''notes''"
        "own_prop (JObj u) ''due''" "own_prop (JObj u) ''status''" "JStr (now w)"]
      patch_body_four_values [of "own_prop (JObj u) ''title''" "own_prop (JObj u) ''notes''"
        "own_prop (JObj u) ''due''" "own_prop (JObj u) ''status''" "JStr (now w)"]
    by blast
  have sub: "set (map fst ?body) \<subseteq> {''title'', ''notes'', ''due'', ''status'', ''completed''}"
    by (rule patch_body_keys)
  have c1: "''completed'' \<in> set (map fst ?body) \<longleftrightarrow>
           own_prop (JObj u) ''status'' = JStr ''completed''"
    by (rule patch_body_completed_key)
  have c2: "own_prop (JObj u) ''status'' = JStr ''completed'' \<longrightarrow>
           own_prop (JObj ?body) ''completed'' = JStr (now w)"
    using patch_body_completed_value by blast
  from rq d four sub c1 c2
  show "\<exists>body.
        snd (updateTask w l t (JObj u)) =
          [\<lparr>api_method = Tasks_patch,
            params = JObj [(''tasklist'', l), (''task'', t), (''requestBody'', JObj body)]\<rparr>] \<and>
        distinct (map fst body) \<and>
        (\<forall>k \<in> {''title'', ''notes'', ''due'', ''status''}.
           (k \<in> set (map fst body) \<longleftrightarrow> own_prop (JObj u) k \<noteq> JUndefined) \<and>
           own_prop (JObj body) k = own_prop (JObj u) k) \<and>
        set (map fst body) \<subseteq> {''title'', ''notes'', ''due'', ''status'', ''completed''} \<and>
        (''completed'' \<in> set (map fst body) \<longleftrightarrow>
           own_prop (JObj u) ''status'' = JStr ''completed'') \<and>
        (own_prop (JObj u) ''status'' = JStr ''completed'' \<longrightarrow>
           own_prop (JObj body) ''completed'' = JStr (now w))"
    by blast
  show "dispatch w ''update_task'' (JObj a) =
       updateTask w (own_prop (JObj a) ''tasklist_id'') (own_prop (JObj a) ''task_id'')
         (JObj
           [(''title'', own_prop (JObj a) ''title''),
            (''notes'', own_prop (JObj a) ''notes''),
            (''due'', own_prop (JObj a) ''due''),
            (''status'', own_prop (JObj a) ''status'')])"
    by (rule dispatch_update_task)
qed

theorem updateTask_partial_body_witness:
  "buildClient example_world = Inr example_client \<and>
   snd (dispatch example_world ''update_task''
          (JObj [(''tasklist_id'', JStr ''L1''), (''task_id'', JStr ''T1''),
                 (''notes'', JStr ''two litres''), (''status'', JStr ''completed'')])) =
     [\<lparr>api_method = Tasks_patch,
       params = JObj
         [(''tasklist'', JStr ''L1''), (''task'', JStr ''T1''),
          (''requestBody'', JObj
             [(''notes'', JStr ''two litres''),
              (''status'', JStr ''completed''),
              (''completed'', JStr ''2026-03-01T09:30:00.000Z'')])]\<rparr>]"
proof -
  have b: "buildClient example_world = Inr example_client" by simp
  from updateTask_partial_body [OF b,
      of _ _ _ "[(''tasklist_id'', JStr ''L1''), (''task_id'', JStr ''T1''),
                 (''notes'', JStr ''two litres''), (''status'', JStr ''completed'')]"]
  have "dispatch example_world ''update_task''
          (JObj [(''tasklist_id'', JStr ''L1''), (''task_id'', JStr ''T1''),
                 (''notes'', JStr ''two litres''), (''status'', JStr ''completed'')]) =
        updateTask example_world (JStr ''L1'') (JStr ''T1'')
          (JObj [(''title'', JUndefined), (''notes'', JStr ''two litres''),
                 (''due'', JUndefined), (''status'', JStr ''completed'')])"
    by simp
  then show ?thesis
    unfolding updateTask_JObj by simp
qed

subsection \<open>Create\<close>

lemma js_or_default_list [simp]:
  "js_default (js_or x (JStr ''@default'')) (JStr ''@default'') = js_or x (JStr ''@default'')"
  by (cases x) (simp_all add: js_default_def js_or_def)

lemma createTask_JObj:
  "createTask w l (JObj task) =
     thenO (buildClient w) (\<lambda>api.
       invoke w api Tasks_insert
         (JObj
           ([(''tasklist'', js_default l (JStr ''@default'')),
             (''requestBody'', JObj
                [(''title'', own_prop (JObj task) ''title''),
                 (''notes'', own_prop (JObj task) ''notes''),
                 (''due'', own_prop (JObj task) ''due''),
                 (''status'', JStr ''needsAction'')])] @
            (if truthy (own_prop (JObj task) ''parent'')
             then [(''parent'', own_prop (JObj task) ''parent'')] else [])))
         formatTask)"
  by (cases "buildClient w") (simp_all add: createTask_def Let_def)

lemma dispatch_create_task:
  "dispatch w ''create_task'' (JObj a) =
     createTask w (js_or (own_prop (JObj a) ''tasklist_id'') (JStr ''@default''))
       (JObj
         [(''title'', own_prop (JObj a) ''title''),
          (''notes'', own_prop (JObj a) ''notes''),
          (''due'', own_prop (JObj a) ''due''),
          (''parent'', own_prop (JObj a) ''parent'')])"
  by (simp add: dispatch_def)

lemma insert_params:
  "own_prop (own_prop (JObj
      ([(''tasklist'', lid), (''requestBody'', JObj [(''title'', ti), (''notes'', no),
          (''due'', du), (''status'', JStr ''needsAction'')])] @
       (if truthy pa then [(''parent'', pa)] else []))) ''requestBody'') ''status'' =
     JStr ''needsAction'' \<and>
   (''parent'' \<in> set (map fst
      ([(''tasklist'', lid), (''requestBody'', JObj [(''title'', ti), (''notes'', no),
          (''due'', du), (''status'', JStr ''needsAction'')])] @
       (if truthy pa then [(''parent'', pa)] else []))) \<longleftrightarrow> truthy pa) \<and>
   (truthy pa \<longrightarrow>
    own_prop (JObj
      ([(''tasklist'', lid), (''requestBody'', JObj [(''title'', ti), (''notes'', no),
          (''due'', du), (''status'', JStr ''needsAction'')])] @
       (if truthy pa then [(''parent'', pa)] else []))) ''parent'' = pa)"
  by auto

lemma createTask_request:
  assumes "buildClient w = Inr api"
  shows "\<exists>ps. snd (createTask w l (JObj task)) =
               [\<lparr>api_method = Tasks_insert, params = JObj ps\<rparr>] \<and>
          own_prop (own_prop (JObj ps) ''requestBody'') ''status'' = JStr ''needsAction'' \<and>
          (''parent'' \<in> set (map fst ps) \<longleftrightarrow> truthy (own_prop (JObj task) ''parent'')) \<and>
          (truthy (own_prop (JObj task) ''parent'') \<longrightarrow>
             own_prop (JObj ps) ''parent'' = own_prop (JObj task) ''parent'')"
proof -
  let ?ps = "[(''tasklist'', js_default l (JStr ''@default'')),
             (''requestBody'', JObj
                [(''title'', own_prop (JObj task) ''title''),
                 (''notes'', own_prop (JObj task) ''notes''),
                 (''due'', own_prop (JObj task) ''due''),
                 (''status'', JStr ''needsAction'')])] @
            (if truthy (own_prop (JObj task) ''parent'')
             then [(''parent'', own_prop (JObj task) ''parent'')] else [])"
  have "snd (createTask w l (JObj task)) = [\<lparr>api_method = Tasks_insert, params = JObj ?ps\<rparr>]"
    unfolding createTask_JObj using assms by simp
  with insert_params [of "js_default l (JStr ''@default'')" "own_prop (JObj task) ''title''"
      "own_prop (JObj task) ''notes''" "own_prop (JObj task) ''due''"
      "own_prop (JObj task) ''parent''"]
  show ?thesis by blast
qed

lemma own_prop_is_string: "own_prop d k = JStr s \<Longrightarrow> \<exists>dkvs. d = JObj dkvs"
  by (cases d) simp_all

lemma create_title_only:
  assumes b: "buildClient w = Inr api"
    and s: "service w api
        \<lparr>api_method = Tasks_insert,
         params = JObj
           [(''tasklist'', JStr ''@default''),
            (''requestBody'', JObj
               [(''title'', JStr s), (''notes'', JUndefined), (''due'', JUndefined),
                (''status'', JStr ''needsAction'')])]\<rparr> = Inr d"
    and d: "own_prop d ''title'' = JStr s" "own_prop d ''status'' = JStr ''needsAction''"
      "own_prop d ''notes'' = JUndefined" "own_prop d ''due'' = JUndefined"
      "own_prop d ''parent'' = JUndefined"
  shows "\<exists>r. fst (dispatch w ''create_task'' (JObj [(''title'', JStr s)])) = Inr r \<and>
             own_prop r ''title'' = JStr s \<and>
             own_prop r ''notes'' = JStr [] \<and>
             own_prop r ''status'' = JStr ''needsAction'' \<and>
             own_prop r ''due'' = JNull \<and>
             own_prop r ''parent'' = JNull"
proof -
  from d(1) obtain dkvs where dk: "d = JObj dkvs"
    using own_prop_is_string by blast
  have "fst (dispatch w ''create_task'' (JObj [(''title'', JStr s)])) = formatTask d"
    unfolding dispatch_create_task createTask_JObj using b s
    by (simp add: fst_invoke js_or_def js_default_def)
  then have r: "fst (dispatch w ''create_task'' (JObj [(''title'', JStr s)])) = Inr (normalized d)"
    unfolding dk by (simp add: formatTask_JObj)
  have "js_or (JStr s) (JStr []) = JStr s"
    by (simp add: js_or_def)
  with d have "own_prop (normalized d) ''title'' = JStr s \<and>
             own_prop (normalized d) ''notes'' = JStr [] \<and>
             own_prop (normalized d) ''status'' = JStr ''needsAction'' \<and>
             own_prop (normalized d) ''due'' = JNull \<and>
             own_prop (normalized d) ''parent'' = JNull"
    unfolding own_prop_normalized by simp
  with r show ?thesis by blast
qed

text \<open>
  C8. When the client is built, \<open>create_task\<close> (and \<open>createTask\<close> on any task object)
  issues one insert request whose body has status \<open>"needsAction"\<close> whatever the arguments
  are, and whose parameters have \<open>parent\<close> exactly when a parent was given, that is when
  the parent of the arguments is a truthy value (a non-empty string); it is then that
  parent. A create with only a title, answered by a service that stores what it was sent
  (that title and status, and no notes, due or parent), returns a Task with that title,
  notes \<open>""\<close>, status \<open>"needsAction"\<close>, due \<open>null\<close> and parent \<open>null\<close>.
\<close>

theorem create_task_forces_needsAction:
  assumes "buildClient w = Inr api"
  shows
    "(\<exists>ps. snd (dispatch w ''create_task'' (JObj a)) =
             [\<lparr>api_method = Tasks_insert, params = JObj ps\<rparr>] \<and>
           own_prop (own_prop (JObj ps) ''requestBody'') ''status'' = JStr ''needsAction'' \<and>
           (''parent'' \<in> set (map fst ps) \<longleftrightarrow> truthy (own_prop (JObj a) ''parent'')) \<and>
           (truthy (own_prop (JObj a) ''parent'') \<longrightarrow>
              own_prop (JObj ps) ''parent'' = own_prop (JObj a) ''parent'')) \<and>
     (\<exists>ps. snd (createTask w l (JObj task)) =
             [\<lparr>api_method = Tasks_insert, params = JObj ps\<rparr>] \<and>
           own_prop (own_prop (JObj ps) ''requestBody'') ''status'' = JStr ''needsAction'' \<and>
           (''parent'' \<in> set (map fst ps) \<longleftrightarrow> truthy (own_prop (JObj task) ''parent'')) \<and>
           (truthy (own_prop (JObj task) ''parent'') \<longrightarrow>
              own_prop (JObj ps) ''parent'' = own_prop (JObj task) ''parent'')) \<and>
     (service w api
        \<lparr>api_method = Tasks_insert,
         params = JObj
           [(''tasklist'', JStr ''@default''),
            (''requestBody'', JObj
               [(''title'', JStr s), (''notes'', JUndefined), (''due'', JUndefined),
                (''status'', JStr ''needsAction'')])]\<rparr> = Inr d \<and>
      own_prop d ''title'' = JStr s \<and> own_prop d ''status'' = JStr ''needsAction'' \<and>
      own_prop d ''notes'' = JUndefined \<and> own_prop d ''due'' = JUndefined \<and>
      own_prop d ''parent'' = JUndefined \<longrightarrow>
      (\<exists>r. fst (dispatch w ''create_task'' (JObj [(''title'', JStr s)])) = Inr r \<and>
           own_prop r ''title'' = JStr s \<and>
           own_prop r ''notes'' = JStr [] \<and>
           own_prop r ''status'' = JStr ''needsAction'' \<and>
           own_prop r ''due'' = JNull \<and>
           own_prop r ''parent'' = JNull))"
proof (intro conjI impI)
  have "\<exists>ps. snd (createTask w (js_or (own_prop (JObj a) ''tasklist_id'') (JStr ''@default''))
           (JObj
             [(''title'', own_prop (JObj a) ''title''),
              (''notes'', own_prop (JObj a) ''notes''),
              (''due'', own_prop (JObj a) ''due''),
              (''parent'', own_prop (JObj a) ''parent'')])) =
             [\<lparr>api_method = Tasks_insert, params = JObj ps\<rparr>] \<and>
           own_prop (own_prop (JObj ps) ''requestBody'') ''status'' = JStr ''needsAction'' \<and>
           (''parent'' \<in> set (map fst ps) \<longleftrightarrow>
              truthy (own_prop (JObj
                [(''title'', own_prop (JObj a) ''title''),
                 (''notes'', own_prop (JObj a) ''notes''),
                 (''due'', own_prop (JObj a) ''due''),
                 (''parent'', own_prop (JObj a) ''parent'')]) ''parent'')) \<and>
           (truthy (own_prop (JObj
                [(''title'', own_prop (JObj a) ''title''),
                 (''notes'', own_prop (JObj a) ''notes''),
                 (''due'', own_prop (JObj a) ''due''),
                 (''parent'', own_prop (JObj a) ''parent'')]) ''parent'') \<longrightarrow>
              own_prop (JObj ps) ''parent'' =
              own_prop (JObj
                [(''title'', own_prop (JObj a) ''title''),
                 (''notes'', own_prop (JObj a) ''notes''),
                 (''due'', own_prop (JObj a) ''due''),
                 (''parent'', own_prop (JObj a) ''parent'')]) ''parent'')"
    using assms by (rule createTask_request)
  moreover have "own_prop (JObj
                [(''title'', own_prop (JObj a) ''title''),
                 (''notes'', own_prop (JObj a) ''notes''),
                 (''due'', own_prop (JObj a) ''due''),
                 (''parent'', own_prop (JObj a) ''parent'')]) ''parent'' =
        own_prop (JObj a) ''parent''"
    by simp
  ultimately show "\<exists>ps. snd (dispatch w ''create_task'' (JObj a)) =
             [\<lparr>api_method = Tasks_insert, params = JObj ps\<rparr>] \<and>
           own_prop (own_prop (JObj ps) ''requestBody'') ''status'' = JStr ''needsAction'' \<and>
           (''parent'' \<in> set (map fst ps) \<longleftrightarrow> truthy (own_prop (JObj a) ''parent'')) \<and>
           (truthy (own_prop (JObj a) ''parent'') \<longrightarrow>
              own_prop (JObj ps) ''parent'' = own_prop (JObj a) ''parent'')"
    unfolding dispatch_create_task by simp
next
  show "\<exists>ps. snd (createTask w l (JObj task)) =
             [\<lparr>api_method = Tasks_insert, params = JObj ps\<rparr>] \<and>
           own_prop (own_prop (JObj ps) ''requestBody'') ''status'' = JStr ''needsAction'' \<and>
           (''parent'' \<in> set (map fst ps) \<longleftrightarrow> truthy (own_prop (JObj task) ''parent'')) \<and>
           (truthy (own_prop (JObj task) ''parent'') \<longrightarrow>
              own_prop (JObj ps) ''parent'' = own_prop (JObj task) ''parent'')"
    using assms by (rule createTask_request)
next
  assume h: "service w api
        \<lparr>api_method = Tasks_insert,
         params = JObj
           [(''tasklist'', JStr ''@default''),
            (''requestBody'', JObj
               [(''title'', JStr s), (''notes'', JUndefined), (''due'', JUndefined),
                (''status'', JStr ''needsAction'')])]\<rparr> = Inr d \<and>
      own_prop d ''title'' = JStr s \<and> own_prop d ''status'' = JStr ''needsAction'' \<and>
      own_prop d ''notes'' = JUndefined \<and> own_prop d ''due'' = JUndefined \<and>
      own_prop d ''parent'' = JUndefined"
  show "\<exists>r. fst (dispatch w ''create_task'' (JObj [(''title'', JStr s)])) = Inr r \<and>
           own_prop r ''title'' = JStr s \<and>
           own_prop r ''notes'' = JStr [] \<and>
           own_prop r ''status'' = JStr ''needsAction'' \<and>
           own_prop r ''due'' = JNull \<and>
           own_prop r ''parent'' = JNull"
    using h by (intro create_title_only [OF assms, of s d]) simp_all
qed

theorem create_task_forces_needsAction_witness:
  "buildClient example_world = Inr example_client \<and>
   service example_world example_client
     \<lparr>api_method = Tasks_insert,
      params = JObj
        [(''tasklist'', JStr ''@default''),
         (''requestBody'', JObj
            [(''title'', JStr ''Buy milk''), (''notes'', JUndefined), (''due'', JUndefined),
             (''status'', JStr ''needsAction'')])]\<rparr> =
     Inr (JObj [(''id'', JStr ''T2''), (''title'', JStr ''Buy milk''),
                (''status'', JStr ''needsAction'')]) \<and>
   (\<exists>r. fst (dispatch example_world ''create_task'' (JObj [(''title'', JStr ''Buy milk'')])) =
          Inr r \<and>
        own_prop r ''title'' = JStr ''Buy milk'' \<and>
        own_prop r ''notes'' = JStr [] \<and>
        own_prop r ''status'' = JStr ''needsAction'' \<and>
        own_prop r ''due'' = JNull \<and>
        own_prop r ''parent'' = JNull) \<and>
   snd (dispatch example_world ''create_task''
          (JObj [(''title'', JStr ''Call Ann''), (''status'', JStr ''completed''),
                 (''parent'', JStr ''T1'')])) =
     [\<lparr>api_method = Tasks_insert,
       params = JObj
         [(''tasklist'', JStr ''@default''),
          (''requestBody'', JObj
             [(''title'', JStr ''Call Ann''), (''notes'', JUndefined), (''due'', JUndefined),
              (''status'', JStr ''needsAction'')]),
          (''parent'', JStr ''T1'')]\<rparr>]"
proof -
  let ?d = "JObj [(''id'', JStr ''T2''), (''title'', JStr ''Buy milk''),
                  (''status'', JStr ''needsAction'')]"
  have b: "buildClient example_world = Inr example_client" by simp
  have s: "service example_world example_client
     \<lparr>api_method = Tasks_insert,
      params = JObj
        [(''tasklist'', JStr ''@default''),
         (''requestBody'', JObj
            [(''title'', JStr ''Buy milk''), (''notes'', JUndefined), (''due'', JUndefined),
             (''status'', JStr ''needsAction'')])]\<rparr> = Inr ?d"
    by (simp add: example_service_def)
  from create_task_forces_needsAction [OF b, of _ _ _ "''Buy milk''" ?d] s
  have r: "\<exists>r. fst (dispatch example_world ''create_task'' (JObj [(''title'', JStr ''Buy milk'')])) =
          Inr r \<and>
        own_prop r ''title'' = JStr ''Buy milk'' \<and>
        own_prop r ''notes'' = JStr [] \<and>
        own_prop r ''status'' = JStr ''needsAction'' \<and>
        own_prop r ''due'' = JNull \<and>
        own_prop r ''parent'' = JNull"
    by simp
  have q: "snd (dispatch example_world ''create_task''
          (JObj [(''title'', JStr ''Call Ann''), (''status'', JStr ''completed''),
                 (''parent'', JStr ''T1'')])) =
     [\<lparr>api_method = Tasks_insert,
       params = JObj
         [(''tasklist'', JStr ''@default''),
          (''requestBody'', JObj
             [(''title'', JStr ''Call Ann''), (''notes'', JUndefined), (''due'', JUndefined),
              (''status'', JStr ''needsAction'')]),
          (''parent'', JStr ''T1'')]\<rparr>]"
    unfolding dispatch_create_task createTask_JObj
    by (simp add: js_or_def js_default_def)
  from b s r q show ?thesis by blast
qed

subsection \<open>Missing local files\<close>

lemma buildClient_missing:
  assumes "\<not> creds_exists w \<or> \<not> tokens_exists w"
  shows "buildClient w =
           Inl (Error (if \<not> creds_exists w then missing_credentials else missing_tokens))"
  using assms by (auto simp: buildClient_def)

lemma thenO_error_no_request:
  assumes "\<And>x. \<exists>e. f x = (Inl e, [])"
  shows "\<exists>e. thenO m f = (Inl e, [])"
  using assms by (cases m) simp_all

lemma tool_name_cases:
  assumes "JStr name \<in> set tool_names"
  shows "name = ''list_task_lists'' \<or>
   name = ''list_tasks'' \<or>
   name = ''get_task'' \<or>
   name = ''create_task'' \<or>
   name = ''update_task'' \<or>
   name = ''complete_task'' \<or>
   name = ''delete_task'' \<or>
   name = ''move_task''"
  using assms unfolding tool_names_eq
  by (simp only: list.set insert_iff empty_iff jsval.inject simp_thms)

lemma dispatch_missing:
  assumes b: "buildClient w = Inl e0" and n: "JStr name \<in> set tool_names"
  shows "\<exists>e. dispatch w name args = (Inl e, [])"
proof -
  have ops: "listTaskLists w = (Inl e0, [])" "\<And>l opts. listTasks w l opts = (Inl e0, [])"
    "\<And>l t. getTask w l t = (Inl e0, [])" "\<And>l task. createTask w l task = (Inl e0, [])"
    "\<And>l t u. updateTask w l t u = (Inl e0, [])" "\<And>l t. completeTask w l t = (Inl e0, [])"
    "\<And>l t. deleteTask w l t = (Inl e0, [])" "\<And>l t opts. moveTask w l t opts = (Inl e0, [])"
    using b
    by (simp_all add: listTaskLists_def listTasks_def getTask_def createTask_def
        updateTask_def completeTask_def deleteTask_def moveTask_def Let_def)
  from tool_name_cases [OF n] show ?thesis
  proof (elim disjE)
    assume "name = ''list_task_lists''"
    then show ?thesis by (simp add: dispatch_def ops)
  next
    assume "name = ''list_tasks''"
    then show ?thesis
      by (simp add: dispatch_def) (intro thenO_error_no_request; simp add: ops)
  next
    assume "name = ''get_task''"
    then show ?thesis
      by (simp add: dispatch_def) (intro thenO_error_no_request; simp add: ops)
  next
    assume "name = ''create_task''"
    then show ?thesis
      by (simp add: dispatch_def) (intro thenO_error_no_request; simp add: ops)
  next
    assume "name = ''update_task''"
    then show ?thesis
      by (simp add: dispatch_def) (intro thenO_error_no_request; simp add: ops)
  next
    assume "name = ''complete_task''"
    then show ?thesis
      by (simp add: dispatch_def) (intro thenO_error_no_request; simp add: ops)
  next
    assume "name = ''delete_task''"
    then show ?thesis
      by (simp add: dispatch_def) (intro thenO_error_no_request; simp add: ops)
  next
    assume "name = ''move_task''"
    then show ?thesis
      by (simp add: dispatch_def) (intro thenO_error_no_request; simp add: ops)
  qed
qed

lemma dispatch_missing_JObj:
  assumes b: "buildClient w = Inl e0" and n: "JStr name \<in> set tool_names"
  shows "dispatch w name (JObj a) = (Inl e0, [])"
  using tool_name_cases [OF n] b
  by (elim disjE)
    (simp_all add: dispatch_def listTaskLists_def listTasks_def getTask_def createTask_def
      updateTask_def completeTask_def deleteTask_def moveTask_def Let_def)

text \<open>
  C9. When the credentials file or the tokens file is absent, each of the eight
  operations ends with the error \<open>Missing .credentials.json ...\<close> (or
  \<open>Missing .tokens.json ...\<close> when only the tokens are absent) and issues no request to
  the remote service. Each of the eight tools then returns an object whose \<open>isError\<close> is
  true and issues no request, whatever its arguments are; when the arguments are an
  object, the text is \<open>Error: \<close> followed by that message.
\<close>

theorem missing_files_fail_before_any_request:
  assumes "\<not> creds_exists w \<or> \<not> tokens_exists w"
  shows
    "listTaskLists w =
       (Inl (Error (if \<not> creds_exists w then missing_credentials else missing_tokens)), []) \<and>
     listTasks w l opts =
       (Inl (Error (if \<not> creds_exists w then missing_credentials else missing_tokens)), []) \<and>
     getTask w l t =
       (Inl (Error (if \<not> creds_exists w then missing_credentials else missing_tokens)), []) \<and>
     createTask w l task =
       (Inl (Error (if \<not> creds_exists w then missing_credentials else missing_tokens)), []) \<and>
     updateTask w l t u =
       (Inl (Error (if \<not> creds_exists w then missing_credentials else missing_tokens)), []) \<and>
     completeTask w l t =
       (Inl (Error (if \<not> creds_exists w then missing_credentials else missing_tokens)), []) \<and>
     deleteTask w l t =
       (Inl (Error (if \<not> creds_exists w then missing_credentials else missing_tokens)), []) \<and>
     moveTask w l t opts =
       (Inl (Error (if \<not> creds_exists w then missing_credentials else missing_tokens)), []) \<and>
     (JStr name \<in> set tool_names \<longrightarrow>
        own_prop (fst (callTool w name args)) ''isError'' = JBool True \<and>
        snd (callTool w name args) = [] \<and>
        callTool w name (JObj a) =
          (JObj
            [(''content'', JArr
               [JObj [(''type'', JStr ''text''),
                      (''text'', JStr (''Error: '' @
                         (if \<not> creds_exists w then missing_credentials else missing_tokens)))]]),
             (''isError'', JBool True)],
           []))"
proof -
  let ?e = "Error (if \<not> creds_exists w then missing_credentials else missing_tokens)"
  have b: "buildClient w = Inl ?e"
    using assms by (rule buildClient_missing)
  have ops: "listTaskLists w = (Inl ?e, [])" "listTasks w l opts = (Inl ?e, [])"
    "getTask w l t = (Inl ?e, [])" "createTask w l task = (Inl ?e, [])"
    "updateTask w l t u = (Inl ?e, [])" "completeTask w l t = (Inl ?e, [])"
    "deleteTask w l t = (Inl ?e, [])" "moveTask w l t opts = (Inl ?e, [])"
    unfolding listTaskLists_def listTasks_def getTask_def createTask_def
        updateTask_def completeTask_def deleteTask_def moveTask_def Let_def b
    by simp_all
  have tools: "JStr name \<in> set tool_names \<longrightarrow>
        own_prop (fst (callTool w name args)) ''isError'' = JBool True \<and>
        snd (callTool w name args) = [] \<and>
        callTool w name (JObj a) =
          (JObj
            [(''content'', JArr
               [JObj [(''type'', JStr ''text''),
                      (''text'', JStr (''Error: '' @
                         (if \<not> creds_exists w then missing_credentials else missing_tokens)))]]),
             (''isError'', JBool True)],
           [])"
  proof
    assume n: "JStr name \<in> set tool_names"
    from dispatch_missing [OF b n] obtain e where "dispatch w name args = (Inl e, [])"
      by blast
    then have any: "own_prop (fst (callTool w name args)) ''isError'' = JBool True \<and>
        snd (callTool w name args) = []"
      by (simp add: callTool_def)
    have "dispatch w name (JObj a) = (Inl ?e, [])"
      using b n by (rule dispatch_missing_JObj)
    then have "callTool w name (JObj a) =
          (JObj
            [(''content'', JArr
               [JObj [(''type'', JStr ''text''),
                      (''text'', JStr (''Error: '' @
                         (if \<not> creds_exists w then missing_credentials else missing_tokens)))]]),
             (''isError'', JBool True)],
           [])"
      by (simp add: callTool_def)
    with any show "own_prop (fst (callTool w name args)) ''isError'' = JBool True \<and>
        snd (callTool w name args) = [] \<and>
        callTool w name (JObj a) =
          (JObj
            [(''content'', JArr
               [JObj [(''type'', JStr ''text''),
                      (''text'', JStr (''Error: '' @
                         (if \<not> creds_exists w then missing_credentials else missing_tokens)))]]),
             (''isError'', JBool True)],
           [])"
      by blast
  qed
  from ops tools show ?thesis by blast
qed

theorem missing_files_fail_before_any_request_witness:
  "creds_exists (example_world\<lparr>tokens_exists := False\<rparr>) \<and>
   \<not> tokens_exists (example_world\<lparr>tokens_exists := False\<rparr>) \<and>
   JStr ''list_tasks'' \<in> set tool_names \<and>
   getTask (example_world\<lparr>tokens_exists := False\<rparr>) (JStr ''L1'') (JStr ''T1'') =
     (Inl (Error (''Missing .tokens.json '' @ em_dash @ '' run: node src/auth.js'')), []) \<and>
   callTool (example_world\<lparr>tokens_exists := False\<rparr>) ''list_tasks'' (JObj []) =
     (JObj
       [(''content'', JArr
          [JObj [(''type'', JStr ''text''),
                 (''text'', JStr (''Error: Missing .tokens.json '' @ em_dash @
                                  '' run: node src/auth.js''))]]),
        (''isError'', JBool True)],
      [])"
proof -
  let ?w = "example_world\<lparr>tokens_exists := False\<rparr>"
  have h: "\<not> creds_exists ?w \<or> \<not> tokens_exists ?w" by simp
  have c: "creds_exists ?w" by (simp add: example_world_def)
  have n: "JStr ''list_tasks'' \<in> set tool_names" by (simp add: tool_names_eq)
  from missing_files_fail_before_any_request [OF h, of "JStr ''L1''" _ "JStr ''T1''" _ _
      "''list_tasks''" _ "[]"] c n
  show ?thesis
    by (simp add: missing_tokens_def)
qed

end
